theory Spec2Isabelle
  imports Main
begin

section \<open>Python values and exceptions\<close>

text \<open>
  The decorators of \<^verbatim>\<open>wrappers.py\<close> handle arbitrary Python objects: JSON bodies,
  endpoint results, decorator arguments. The values the library distinguishes are
  modelled by one datatype. A \<open>str\<close> is a list of code points below 256. A \<open>float\<close>
  is named by its \<open>repr\<close> text (floating point arithmetic is not modelled). A \<open>dict\<close>
  is the list of its items in insertion order, with \<open>str\<close> keys as in a JSON object.
  \<open>PObject t\<close> is any other object, of a class named \<open>t\<close>.
\<close>

record datetime =
  year :: nat
  month :: nat
  day :: nat
  hour :: nat
  minute :: nat
  second :: nat
  microsecond :: nat
  utcoffset :: "int option"

datatype pyval =
    PNone
  | PBool bool
  | PInt int
  | PFloat string
  | PStr string
  | PList "pyval list"
  | PTuple "pyval list"
  | PDict "(string \<times> pyval) list"
  | PDatetime datetime
  | PObject string

text \<open>The value of \<open>type(v)\<close>.\<close>

datatype pytype =
    TyNoneType | TyBool | TyInt | TyFloat | TyStr | TyList | TyTuple | TyDict
  | TyDatetime | TyOther string

fun type_of :: "pyval \<Rightarrow> pytype" where
  "type_of PNone = TyNoneType"
| "type_of (PBool b) = TyBool"
| "type_of (PInt i) = TyInt"
| "type_of (PFloat r) = TyFloat"
| "type_of (PStr s) = TyStr"
| "type_of (PList xs) = TyList"
| "type_of (PTuple xs) = TyTuple"
| "type_of (PDict kvs) = TyDict"
| "type_of (PDatetime d) = TyDatetime"
| "type_of (PObject t) = TyOther t"

text \<open>\<open>type(v).__name__\<close>.\<close>

fun type_name :: "pytype \<Rightarrow> string" where
  "type_name TyNoneType = ''NoneType''"
| "type_name TyBool = ''bool''"
| "type_name TyInt = ''int''"
| "type_name TyFloat = ''float''"
| "type_name TyStr = ''str''"
| "type_name TyList = ''list''"
| "type_name TyTuple = ''tuple''"
| "type_name TyDict = ''dict''"
| "type_name TyDatetime = ''datetime''"
| "type_name (TyOther t) = t"

text \<open>
  A raised exception: the name of its class and \<open>str\<close> of the exception (its message).
  A call of a Python function either raises (\<open>Inl\<close>) or returns (\<open>Inr\<close>).
\<close>

datatype exc = Exc (exc_class: string) (exc_msg: string)

abbreviation AssertionError :: "string \<Rightarrow> exc" where
  "AssertionError m \<equiv> Exc ''AssertionError'' m"

abbreviation ValueError :: "string \<Rightarrow> exc" where
  "ValueError m \<equiv> Exc ''ValueError'' m"

abbreviation TypeError :: "string \<Rightarrow> exc" where
  "TypeError m \<equiv> Exc ''TypeError'' m"

section \<open>String operations of the Python runtime\<close>

text \<open>\<open>s.split(sep)\<close> for a one-character separator: every occurrence splits.\<close>

fun split :: "char \<Rightarrow> string \<Rightarrow> string list" where
  "split sep [] = [[]]"
| "split sep (c # cs) =
     (if c = sep then [] # split sep cs
      else (case split sep cs of p # ps \<Rightarrow> (c # p) # ps | [] \<Rightarrow> [[c]]))"

text \<open>\<open>s.lower()\<close> on code points below 256: A-Z and the Latin-1 capitals.\<close>

definition lower_char :: "char \<Rightarrow> char" where
  "lower_char c =
     (let n = of_char c :: nat in
      if (65 \<le> n \<and> n \<le> 90) \<or> (192 \<le> n \<and> n \<le> 222 \<and> n \<noteq> 215)
      then char_of (n + 32) else c)"

definition lower :: "string \<Rightarrow> string" where
  "lower s = map lower_char s"

text \<open>\<open>sep.join(xs)\<close>.\<close>

fun join :: "string \<Rightarrow> string list \<Rightarrow> string" where
  "join sep [] = []"
| "join sep [x] = x"
| "join sep (x # y # ys) = x @ sep @ join sep (y # ys)"

text \<open>
  \<open>str(v)\<close>: the identity on a \<open>str\<close>. What \<open>str\<close> gives for any other object
  is the runtime's business and is taken as a parameter.
\<close>

definition py_str :: "(pyval \<Rightarrow> string) \<Rightarrow> pyval \<Rightarrow> string" where
  "py_str str_other v = (case v of PStr s \<Rightarrow> s | _ \<Rightarrow> str_other v)"

text \<open>\<open>d[k] = v\<close> on a dict kept as its item list: a new key goes last.\<close>

fun dict_set :: "('k \<times> 'v) list \<Rightarrow> 'k \<Rightarrow> 'v \<Rightarrow> ('k \<times> 'v) list" where
  "dict_set [] k v = [(k, v)]"
| "dict_set ((k', v') # kvs) k v =
     (if k' = k then (k, v) # kvs else (k', v') # dict_set kvs k v)"

section \<open>Library functions the decorators call\<close>

text \<open>
  The functions of this section belong to the Python runtime and its standard
  library (\<^verbatim>\<open>str\<close> of an \<open>int\<close>, \<^verbatim>\<open>datetime.isoformat\<close>, the text encoders of
  \<^verbatim>\<open>json\<close>, \<^verbatim>\<open>traceback.format_exc\<close>), not to \<^verbatim>\<open>wrappers.py\<close>. They are modelled
  after their documented behaviour, as far as the decorators depend on it.
\<close>

text \<open>\<open>str(n)\<close> for an \<open>int\<close>: decimal digits, with a sign when negative.\<close>

definition digit_char :: "nat \<Rightarrow> char" where
  "digit_char d = ''0123456789'' ! d"

function str_nat :: "nat \<Rightarrow> string" where
  "str_nat n = (if n < 10 then [digit_char n] else str_nat (n div 10) @ [digit_char (n mod 10)])"
  by pat_completeness auto
termination
  by (relation "measure id") auto

declare str_nat.simps [simp del]

definition str_int :: "int \<Rightarrow> string" where
  "str_int i = (if i < 0 then CHR ''-'' # str_nat (nat (- i)) else str_nat (nat i))"

text \<open>The format \<^verbatim>\<open>%0wd\<close>: at least \<open>w\<close> digits, zeros in front.\<close>

definition pad :: "nat \<Rightarrow> nat \<Rightarrow> string" where
  "pad w n = replicate (w - length (str_nat n)) CHR ''0'' @ str_nat n"

text \<open>
  \<^verbatim>\<open>datetime.isoformat()\<close>: \<^verbatim>\<open>YYYY-MM-DDTHH:MM:SS\<close>, then the microseconds when they
  are not zero, then the UTC offset of an aware datetime (kept in whole seconds).
\<close>

definition format_offset :: "int option \<Rightarrow> string" where
  "format_offset off =
     (case off of
        None \<Rightarrow> []
      | Some s \<Rightarrow>
          (let a = nat \<bar>s\<bar>; hh = a div 3600; mm = (a mod 3600) div 60; ss = a mod 60
           in (if s < 0 then ''-'' else ''+'') @ pad 2 hh @ '':'' @ pad 2 mm
              @ (if ss \<noteq> 0 then '':'' @ pad 2 ss else [])))"

definition isoformat :: "datetime \<Rightarrow> string" where
  "isoformat d =
     pad 4 (year d) @ ''-'' @ pad 2 (month d) @ ''-'' @ pad 2 (day d) @ ''T''
     @ pad 2 (hour d) @ '':'' @ pad 2 (minute d) @ '':'' @ pad 2 (second d)
     @ (if microsecond d \<noteq> 0 then ''.'' @ pad 6 (microsecond d) else [])
     @ format_offset (utcoffset d)"

text \<open>
  \<^verbatim>\<open>json.encoder.py_encode_basestring_ascii\<close>: the text in double quotes; the
  backslash, the double quote and every character outside space..tilde escaped.
\<close>

definition hex_digit :: "nat \<Rightarrow> char" where
  "hex_digit d = ''0123456789abcdef'' ! d"

definition escape_char :: "char \<Rightarrow> string" where
  "escape_char c =
     (let n = of_char c :: nat in
      if c = CHR 0x5C then [CHR 0x5C, CHR 0x5C]
      else if c = CHR 0x22 then [CHR 0x5C, CHR 0x22]
      else if 32 \<le> n \<and> n \<le> 126 then [c]
      else if n = 8 then [CHR 0x5C, CHR ''b'']
      else if n = 12 then [CHR 0x5C, CHR ''f'']
      else if n = 10 then [CHR 0x5C, CHR ''n'']
      else if n = 13 then [CHR 0x5C, CHR ''r'']
      else if n = 9 then [CHR 0x5C, CHR ''t'']
      else [CHR 0x5C, CHR ''u'', CHR ''0'', CHR ''0'', hex_digit (n div 16), hex_digit (n mod 16)])"

definition encode_basestring_ascii :: "string \<Rightarrow> string" where
  "encode_basestring_ascii s = [CHR 0x22] @ concat (map escape_char s) @ [CHR 0x22]"

text \<open>The encoder's text of a \<open>float\<close>, from its \<open>repr\<close>.\<close>

definition floatstr :: "string \<Rightarrow> string" where
  "floatstr r =
     (if r = ''nan'' then ''NaN'' else if r = ''inf'' then ''Infinity''
      else if r = ''-inf'' then ''-Infinity'' else r)"

text \<open>\<^verbatim>\<open>json.JSONEncoder.default\<close>: always a \<open>TypeError\<close>.\<close>

definition JSONEncoder_default :: "pyval \<Rightarrow> exc + pyval" where
  "JSONEncoder_default obj =
     Inl (TypeError (''Object of type '' @ type_name (type_of obj) @ '' is not JSON serializable''))"

text \<open>
  \<^verbatim>\<open>traceback.format_exc()\<close> for the exception being handled: the header line, the
  stack entries (the runtime's text \<open>stack e\<close>, a parameter), and the line of the
  exception itself: its class name, followed by a colon and the message unless the
  message is empty.
\<close>

definition format_exc :: "(exc \<Rightarrow> string) \<Rightarrow> exc \<Rightarrow> string" where
  "format_exc stack e =
     ''Traceback (most recent call last):'' @ [CHR 0x0A] @ stack e
     @ exc_class e @ (if exc_msg e = [] then [] else '': '' @ exc_msg e) @ [CHR 0x0A]"

section \<open>The JSON encoder of the library\<close>

text \<open>
  Lines 6-14, \<^verbatim>\<open>__JSONEncoder.default\<close>: the hook \<^verbatim>\<open>json.dumps\<close> calls for an object
  it cannot encode itself. \<^verbatim>\<open>isinstance(obj, datetime.datetime)\<close> holds for a
  \<open>PDatetime\<close> only.
\<close>

definition encoder_default :: "pyval \<Rightarrow> exc + pyval" where
  "encoder_default obj =
     (case obj of
        PDatetime d \<Rightarrow> Inr (PStr (isoformat d))
      | _ \<Rightarrow> JSONEncoder_default obj)"

text \<open>
  \<^verbatim>\<open>json.dumps(obj, cls=__JSONEncoder)\<close>: the standard encoding with the separators
  \<^verbatim>\<open>", "\<close> and \<^verbatim>\<open>": "\<close>; an object that is no JSON value goes through the hook,
  and what the hook returns is encoded in its place. The first exception ends the
  encoding. \<open>weight\<close> is the measure of the termination proof.
\<close>

fun weight :: "pyval \<Rightarrow> nat" where
  "weight (PList xs) = Suc (sum_list (map weight xs))"
| "weight (PTuple xs) = Suc (sum_list (map weight xs))"
| "weight (PDict kvs) = Suc (sum_list (map (\<lambda>kv. weight (snd kv)) kvs))"
| "weight (PDatetime d) = 2"
| "weight (PObject t) = 2"
| "weight v = 1"

function encode :: "pyval \<Rightarrow> exc + string"
  and encode_list :: "pyval list \<Rightarrow> exc + string list"
  and encode_dict :: "(string \<times> pyval) list \<Rightarrow> exc + string list" where
  "encode PNone = Inr ''null''"
| "encode (PBool b) = Inr (if b then ''true'' else ''false'')"
| "encode (PInt i) = Inr (str_int i)"
| "encode (PFloat r) = Inr (floatstr r)"
| "encode (PStr s) = Inr (encode_basestring_ascii s)"
| "encode (PList xs) =
     (case encode_list xs of Inl e \<Rightarrow> Inl e | Inr ps \<Rightarrow> Inr (''['' @ join '', '' ps @ '']''))"
| "encode (PTuple xs) =
     (case encode_list xs of Inl e \<Rightarrow> Inl e | Inr ps \<Rightarrow> Inr (''['' @ join '', '' ps @ '']''))"
| "encode (PDict kvs) =
     (case encode_dict kvs of Inl e \<Rightarrow> Inl e | Inr ps \<Rightarrow> Inr (''{'' @ join '', '' ps @ ''}''))"
| "encode (PDatetime d) =
     (case encoder_default (PDatetime d) of Inl e \<Rightarrow> Inl e | Inr v \<Rightarrow> encode v)"
| "encode (PObject t) =
     (case encoder_default (PObject t) of Inl e \<Rightarrow> Inl e | Inr v \<Rightarrow> encode v)"
| "encode_list [] = Inr []"
| "encode_list (x # xs) =
     (case encode x of
        Inl e \<Rightarrow> Inl e
      | Inr p \<Rightarrow> (case encode_list xs of Inl e \<Rightarrow> Inl e | Inr ps \<Rightarrow> Inr (p # ps)))"
| "encode_dict [] = Inr []"
| "encode_dict ((k, v) # kvs) =
     (case encode v of
        Inl e \<Rightarrow> Inl e
      | Inr p \<Rightarrow>
          (case encode_dict kvs of
             Inl e \<Rightarrow> Inl e
           | Inr ps \<Rightarrow> Inr ((encode_basestring_ascii k @ '': '' @ p) # ps)))"
  by pat_completeness auto
termination
proof -
  have pos: "\<And>v. 0 < weight v"
    subgoal for v by (cases v) auto
    done
  show ?thesis
    by (relation "measure (\<lambda>x. case x of
          Inl v \<Rightarrow> 2 * weight v
        | Inr (Inl xs) \<Rightarrow> 2 * sum_list (map weight xs) + 1
        | Inr (Inr kvs) \<Rightarrow> 2 * sum_list (map (\<lambda>kv. weight (snd kv)) kvs) + 1)")
      (auto simp: encoder_default_def JSONEncoder_default_def pos)
qed

definition dumps :: "pyval \<Rightarrow> exc + string" where
  "dumps obj = encode obj"

section \<open>The exception guard\<close>

text \<open>
  An endpoint, and every decorated endpoint, is called with positional and keyword
  arguments and raises or returns.
\<close>

type_synonym kwargs = "(string \<times> pyval) list"

type_synonym handler = "pyval list \<Rightarrow> kwargs \<Rightarrow> exc + pyval"

text \<open>
  Lines 17-25, \<^verbatim>\<open>catch\<close>: the bare \<^verbatim>\<open>except:\<close> takes every exception, and the
  callback returns the pair of the traceback text and 500.
\<close>

definition catch :: "(exc \<Rightarrow> string) \<Rightarrow> handler \<Rightarrow> handler" where
  "catch stack func args kwargs =
     (case func args kwargs of
        Inr r \<Rightarrow> Inr r
      | Inl e \<Rightarrow> Inr (PTuple [PStr (format_exc stack e), PInt 500]))"

section \<open>The JSON-body extractor\<close>

text \<open>
  What the attribute \<^verbatim>\<open>request.json\<close> of the ambient request is: a value (Flask's
  property gives the parsed body, or \<open>None\<close> when there is no JSON body), a method
  whose call raises or returns, or a property whose evaluation raises.
\<close>

datatype json_attr = JsonValue pyval | JsonMethod "exc + pyval" | JsonRaises exc

record request =
  json :: json_attr

text \<open>
  Lines 37-40: the body is \<^verbatim>\<open>request.json\<close> when that is a \<open>dict\<close>, and the
  result of the call \<^verbatim>\<open>request.json()\<close> otherwise; calling a value that is not
  callable raises \<open>TypeError\<close>.
\<close>

definition request_body :: "json_attr \<Rightarrow> exc + pyval" where
  "request_body j =
     (case j of
        JsonRaises e \<Rightarrow> Inl e
      | JsonMethod r \<Rightarrow> r
      | JsonValue (PDict kvs) \<Rightarrow> Inr (PDict kvs)
      | JsonValue v \<Rightarrow>
          Inl (TypeError ([CHR 0x27] @ type_name (type_of v) @ [CHR 0x27]
                 @ '' object is not callable'')))"

text \<open>Lines 36-44, \<^verbatim>\<open>json_request\<close>.\<close>

definition json_request :: "request \<Rightarrow> handler \<Rightarrow> handler" where
  "json_request request func args kwargs =
     (case request_body (json request) of
        Inl e \<Rightarrow> Inl e
      | Inr body \<Rightarrow>
          if body = PNone then Inl (AssertionError ''Request body is not application/json'')
          else func (body # args) kwargs)"

section \<open>The required-field validator\<close>

text \<open>
  The local table \<^verbatim>\<open>__types\<close> of \<^verbatim>\<open>verify_json\<close>: \<^verbatim>\<open>"any"\<close> maps to the string
  \<^verbatim>\<open>"any"\<close>, every other tag to a type object.
\<close>

datatype type_entry = AnyStr | TypeObj pytype

definition types :: "(string \<times> type_entry) list" where
  "types =
     [(''any'', AnyStr), (''str'', TypeObj TyStr), (''int'', TypeObj TyInt),
      (''float'', TypeObj TyFloat), (''bool'', TypeObj TyBool),
      (''list'', TypeObj TyList), (''dict'', TypeObj TyDict)]"

text \<open>
  Lines 77-83: \<^verbatim>\<open>key = str(key)\<close>, and when the text has a colon,
  \<^verbatim>\<open>_type_name, key = key.split(":")\<close> with the tag lowered. Unpacking a list
  that has not exactly two elements raises \<open>ValueError\<close>.
\<close>

definition parse_required :: "string \<Rightarrow> exc + (string option \<times> string)" where
  "parse_required key =
     (if CHR '':'' \<in> set key then
        (case split CHR '':'' key of
           [tname, key'] \<Rightarrow> Inr (Some (lower tname), key')
         | [] \<Rightarrow> Inl (ValueError ''not enough values to unpack (expected 2, got 0)'')
         | [_] \<Rightarrow> Inl (ValueError ''not enough values to unpack (expected 2, got 1)'')
         | _ \<Rightarrow> Inl (ValueError ''too many values to unpack (expected 2)''))
      else Inr (None, key))"

text \<open>
  Lines 85-92, one pass of the loop body after the parse: the body \<open>obj\<close> is a dict,
  \<open>errors\<close> the dict of reasons collected so far, \<open>tname\<close> the variable
  \<^verbatim>\<open>_type_name\<close> (\<open>None\<close> when the specifier had no colon).
\<close>

definition check_required ::
  "(string \<times> pyval) list \<Rightarrow> (string \<times> string) list \<Rightarrow> string option \<Rightarrow> string
     \<Rightarrow> exc + (string \<times> string) list" where
  "check_required obj errors tname key =
     (case map_of obj key of
        None \<Rightarrow> Inr (dict_set errors key ''missing'')
      | Some val \<Rightarrow>
          (case tname of
             None \<Rightarrow> Inr errors
           | Some tn \<Rightarrow>
               if tn \<noteq> ''any'' then
                 (case map_of types tn of
                    None \<Rightarrow>
                      Inl (AssertionError
                        (tn @ '' is not a valid type. The valid types are: ''
                          @ join '' '' (map fst types) @ ''.''))
                  | Some ty \<Rightarrow>
                      if TypeObj (type_of val) \<noteq> ty
                      then Inr (dict_set errors key (''is not of type '' @ tn))
                      else Inr errors)
               else Inr errors))"

definition verify_key ::
  "(pyval \<Rightarrow> string) \<Rightarrow> (string \<times> pyval) list \<Rightarrow> (string \<times> string) list \<Rightarrow> pyval
     \<Rightarrow> exc + (string \<times> string) list" where
  "verify_key str_other obj errors k =
     (case parse_required (py_str str_other k) of
        Inl e \<Rightarrow> Inl e
      | Inr (tname, key) \<Rightarrow> check_required obj errors tname key)"

text \<open>The loop \<^verbatim>\<open>for key in required\<close>: the first exception ends it.\<close>

fun verify_loop ::
  "(pyval \<Rightarrow> string) \<Rightarrow> (string \<times> pyval) list \<Rightarrow> (string \<times> string) list \<Rightarrow> pyval list
     \<Rightarrow> exc + (string \<times> string) list" where
  "verify_loop str_other obj errors [] = Inr errors"
| "verify_loop str_other obj errors (k # ks) =
     (case verify_key str_other obj errors k of
        Inl e \<Rightarrow> Inl e
      | Inr errors' \<Rightarrow> verify_loop str_other obj errors' ks)"

definition verify_json ::
  "(pyval \<Rightarrow> string) \<Rightarrow> (string \<times> pyval) list \<Rightarrow> pyval list \<Rightarrow> exc + (string \<times> string) list" where
  "verify_json str_other obj required = verify_loop str_other obj [] required"

text \<open>
  Lines 95-101, \<^verbatim>\<open>__verify_json\<close>: \<open>required\<close> is the tuple of the arguments the
  decorator was built with; when its first element is a list or a tuple, that
  element takes the place of the whole tuple.
\<close>

definition verify_json_priv ::
  "(pyval \<Rightarrow> string) \<Rightarrow> pyval list \<Rightarrow> (string \<times> pyval) list \<Rightarrow> exc + (string \<times> string) list" where
  "verify_json_priv str_other required obj =
     (case required of
        [] \<Rightarrow> Inr []
      | PList xs # _ \<Rightarrow> verify_json str_other obj xs
      | PTuple xs # _ \<Rightarrow> verify_json str_other obj xs
      | _ \<Rightarrow> verify_json str_other obj required)"

section \<open>The response serializer\<close>

text \<open>The arguments \<^verbatim>\<open>Response\<close> is built with.\<close>

record response =
  response :: string
  status :: pyval
  mimetype :: string

text \<open>\<^verbatim>\<open>isinstance(v, (list, tuple))\<close>, and the elements of such a value.\<close>

definition is_list_or_tuple :: "pyval \<Rightarrow> bool" where
  "is_list_or_tuple v = (case v of PList _ \<Rightarrow> True | PTuple _ \<Rightarrow> True | _ \<Rightarrow> False)"

definition items_of :: "pyval \<Rightarrow> pyval list" where
  "items_of v = (case v of PList xs \<Rightarrow> xs | PTuple xs \<Rightarrow> xs | _ \<Rightarrow> [])"

text \<open>
  Lines 186-197, \<^verbatim>\<open>json_response\<close>. \<open>result1\<close> is \<open>result\<close> after line 189 and
  \<open>result2\<close> after line 194; both are lists or tuples, and \<open>result2\<close> has two
  elements at least.
\<close>

definition json_response :: "handler \<Rightarrow> pyval list \<Rightarrow> kwargs \<Rightarrow> exc + response" where
  "json_response func args kwargs =
     (case func args kwargs of
        Inl e \<Rightarrow> Inl e
      | Inr result \<Rightarrow>
          (let result1 = (if \<not> is_list_or_tuple result then PTuple [result, PInt 200] else result);
               result2 =
                 (if length (items_of result1) = 0 then PTuple [PStr [], PInt 200]
                  else if length (items_of result1) = 1
                    then PTuple [items_of result1 ! 0, PInt 200]
                  else result1)
           in case dumps (items_of result2 ! 0) of
                Inl e \<Rightarrow> Inl e
              | Inr text \<Rightarrow>
                  Inr \<lparr>response = text, status = items_of result2 ! 1,
                       mimetype = ''application/json''\<rparr>))"

section \<open>The route factory\<close>

text \<open>
  A function object: its \<^verbatim>\<open>__name__\<close> and what calling it does. The factory never
  looks into the callable, so its behaviour is a type parameter.
\<close>

record 'b pyfunction =
  func_name :: string
  func_body :: 'b

text \<open>
  The keyword options of a route: \<^verbatim>\<open>methods\<close> (\<open>None\<close> when the caller gave none)
  and all the others, which pass through.
\<close>

record route_options =
  methods :: "string list option"
  other_options :: kwargs

text \<open>The call \<^verbatim>\<open>self.app.route(route, **options)(__callback)\<close> handed to the host.\<close>

record 'b registration =
  route :: string
  reg_options :: route_options
  view_func :: "'b pyfunction"

text \<open>
  Line 214: \<^verbatim>\<open>func.__name__ + str(id(__callback))\<close>. The identity of the new
  callback is the runtime's choice, a parameter.
\<close>

definition callback_name :: "string \<Rightarrow> nat \<Rightarrow> string" where
  "callback_name name callback_id = name @ str_nat callback_id"

text \<open>
  Lines 205-216, \<^verbatim>\<open>__wrap_route\<close> applied to \<open>func\<close>. The set of line 207 is
  kept as a list without repetitions; the order in which Python lists a set is not
  specified, and nothing below depends on it. The callback calls \<open>func\<close> with its
  own arguments: it behaves as \<open>func\<close> does.
\<close>

definition wrap_route ::
  "string \<Rightarrow> string \<Rightarrow> route_options \<Rightarrow> 'b pyfunction \<Rightarrow> nat \<Rightarrow> 'b registration" where
  "wrap_route rt method opts func callback_id =
     (let methods0 = remdups (case methods opts of None \<Rightarrow> [] | Some ms \<Rightarrow> ms);
          methods1 = (if method \<notin> set methods0 then methods0 @ [method] else methods0);
          opts1 = opts\<lparr>methods := Some methods1\<rparr>;
          callback = \<lparr>func_name = callback_name (func_name func) callback_id,
                      func_body = func_body func\<rparr>
      in \<lparr>route = rt, reg_options = opts1, view_func = callback\<rparr>)"

definition options :: "string \<Rightarrow> route_options \<Rightarrow> 'b pyfunction \<Rightarrow> nat \<Rightarrow> 'b registration" where
  "options rt opts = wrap_route rt ''OPTIONS'' opts"

definition get :: "string \<Rightarrow> route_options \<Rightarrow> 'b pyfunction \<Rightarrow> nat \<Rightarrow> 'b registration" where
  "get rt opts = wrap_route rt ''GET'' opts"

definition post :: "string \<Rightarrow> route_options \<Rightarrow> 'b pyfunction \<Rightarrow> nat \<Rightarrow> 'b registration" where
  "post rt opts = wrap_route rt ''POST'' opts"

definition put :: "string \<Rightarrow> route_options \<Rightarrow> 'b pyfunction \<Rightarrow> nat \<Rightarrow> 'b registration" where
  "put rt opts = wrap_route rt ''PUT'' opts"

definition delete :: "string \<Rightarrow> route_options \<Rightarrow> 'b pyfunction \<Rightarrow> nat \<Rightarrow> 'b registration" where
  "delete rt opts = wrap_route rt ''DELETE'' opts"

section \<open>Notions of the specification\<close>

text \<open>
  The normalization of an endpoint's return value as the specification words it:
  a value that is no list or tuple is the payload, with status 200; an empty
  sequence gives the payload \<open>""\<close> and 200; a sequence of one element gives that
  element and 200; a longer one gives its first two elements.
\<close>

fun normalized_sequence :: "pyval list \<Rightarrow> pyval \<times> pyval" where
  "normalized_sequence [] = (PStr [], PInt 200)"
| "normalized_sequence [x] = (x, PInt 200)"
| "normalized_sequence (x # y # rest) = (x, y)"

definition normalized :: "pyval \<Rightarrow> pyval \<times> pyval" where
  "normalized v =
     (case v of
        PList xs \<Rightarrow> normalized_sequence xs
      | PTuple xs \<Rightarrow> normalized_sequence xs
      | _ \<Rightarrow> (v, PInt 200))"

text \<open>The payload with every datetime in it replaced by its ISO-8601 text.\<close>

fun iso_subst :: "pyval \<Rightarrow> pyval" where
  "iso_subst (PDatetime d) = PStr (isoformat d)"
| "iso_subst (PList xs) = PList (map iso_subst xs)"
| "iso_subst (PTuple xs) = PTuple (map iso_subst xs)"
| "iso_subst (PDict kvs) = PDict (map (\<lambda>kv. (fst kv, iso_subst (snd kv))) kvs)"
| "iso_subst v = v"

text \<open>
  The class of the first object in the payload, in the order of encoding, that is
  neither a value of standard JSON nor a datetime; \<open>None\<close> when there is none.
\<close>

fun first_object :: "pyval \<Rightarrow> string option"
  and first_object_list :: "pyval list \<Rightarrow> string option"
  and first_object_dict :: "(string \<times> pyval) list \<Rightarrow> string option" where
  "first_object (PObject t) = Some t"
| "first_object (PList xs) = first_object_list xs"
| "first_object (PTuple xs) = first_object_list xs"
| "first_object (PDict kvs) = first_object_dict kvs"
| "first_object v = None"
| "first_object_list [] = None"
| "first_object_list (x # xs) =
     (case first_object x of Some t \<Rightarrow> Some t | None \<Rightarrow> first_object_list xs)"
| "first_object_dict [] = None"
| "first_object_dict (kv # kvs) =
     (case first_object (snd kv) of Some t \<Rightarrow> Some t | None \<Rightarrow> first_object_dict kvs)"

text \<open>The verbs the caller listed under \<^verbatim>\<open>methods\<close>.\<close>

definition caller_methods :: "route_options \<Rightarrow> string set" where
  "caller_methods opts = (case methods opts of None \<Rightarrow> {} | Some ms \<Rightarrow> set ms)"

text \<open>The characters an ISO-8601 text is made of.\<close>

definition plain_chars :: "char set" where
  "plain_chars = set ''0123456789:+-.T''"

section \<open>Properties of the runtime's string operations\<close>

lemma split_no_sep: "sep \<notin> set s \<Longrightarrow> split sep s = [s]"
  by (induction s) auto

lemma split_once:
  "sep \<notin> set t \<Longrightarrow> sep \<notin> set k \<Longrightarrow> split sep (t @ sep # k) = [t, k]"
  by (induction t) (auto simp: split_no_sep)

section \<open>Properties of the required-field validator\<close>

lemma parse_required_bare:
  "CHR '':'' \<notin> set key \<Longrightarrow> parse_required key = Inr (None, key)"
  by (simp add: parse_required_def)

lemma parse_required_tagged:
  "CHR '':'' \<notin> set t \<Longrightarrow> CHR '':'' \<notin> set key \<Longrightarrow>
   parse_required (t @ CHR '':'' # key) = Inr (Some (lower t), key)"
  by (simp add: parse_required_def split_once)

lemma types_keys: "join '' '' (map fst types) = ''any str int float bool list dict''"
  by (simp add: types_def)

text \<open>
  Claim C10. When the key of a specifier is absent from the body, the pass records
  \<open>missing\<close> for the key and goes on with the next specifier, whatever the type tag
  is: the tag is not looked up, so an unrecognised tag raises nothing here. This
  holds for a specifier \<open>tag:key\<close> and for a bare key.
\<close>

theorem missing_precedes_tag_check:
  assumes "CHR '':'' \<notin> set t" and "CHR '':'' \<notin> set key" and "map_of obj key = None"
  shows "verify_key str_other obj errors (PStr (t @ '':'' @ key))
           = Inr (dict_set errors key ''missing'')
       \<and> verify_key str_other obj errors (PStr key) = Inr (dict_set errors key ''missing'')
       \<and> verify_loop str_other obj errors (PStr (t @ '':'' @ key) # ks)
           = verify_loop str_other obj (dict_set errors key ''missing'') ks"
  using assms
  by (simp add: verify_key_def py_str_def parse_required_tagged parse_required_bare
      check_required_def)

theorem missing_precedes_tag_check_witness:
  "CHR '':'' \<notin> set ''weird'' \<and> CHR '':'' \<notin> set ''field''
   \<and> map_of [(''other'', PInt 1)] ''field'' = None
   \<and> map_of types (lower ''weird'') = None
   \<and> verify_json (type_name \<circ> type_of) [(''other'', PInt 1)] [PStr ''weird:field'']
       = Inr [(''field'', ''missing'')]"
  using missing_precedes_tag_check [of "''weird''" "''field''" "[(''other'', PInt 1)]"
      "type_name \<circ> type_of" "[]" "[]"]
  by (simp add: verify_json_def types_def lower_def lower_char_def)

lemma verify_loop_append:
  "verify_loop str_other obj errors pre = Inr errors' \<Longrightarrow>
   verify_loop str_other obj errors (pre @ ks) = verify_loop str_other obj errors' ks"
  by (induction pre arbitrary: errors) (auto split: sum.splits)

text \<open>
  Claim C3. For a specifier \<open>tag:key\<close> whose lowered tag names a type of the table
  and whose key is in the body with value \<open>v\<close>, the pass records
  \<open>is not of type tag\<close> for the key exactly when \<open>type(v)\<close> is not that very type,
  and leaves the reasons as they are otherwise. The comparison is on \<open>type(v)\<close>
  itself: a \<open>str\<close> is not coerced to an \<open>int\<close>, and a \<open>bool\<close> is not accepted
  as an \<open>int\<close>.
\<close>

theorem type_check_exact:
  assumes "CHR '':'' \<notin> set t" and "CHR '':'' \<notin> set key"
    and "map_of types (lower t) = Some (TypeObj ty)"
    and "map_of obj key = Some v"
  shows "verify_key str_other obj errors (PStr (t @ '':'' @ key))
           = Inr (if type_of v \<noteq> ty
                  then dict_set errors key (''is not of type '' @ lower t) else errors)"
proof -
  from assms(3) have "lower t \<noteq> ''any''"
    by (auto simp: types_def)
  with assms show ?thesis
    by (simp add: verify_key_def py_str_def parse_required_tagged check_required_def)
qed

theorem type_check_exact_witness:
  "CHR '':'' \<notin> set ''int'' \<and> CHR '':'' \<notin> set ''age''
   \<and> map_of types (lower ''int'') = Some (TypeObj TyInt)
   \<and> map_of [(''age'', PStr ''12'')] ''age'' = Some (PStr ''12'')
   \<and> map_of [(''age'', PInt 12)] ''age'' = Some (PInt 12)
   \<and> map_of [(''age'', PBool True)] ''age'' = Some (PBool True)
   \<and> verify_json (type_name \<circ> type_of) [(''age'', PStr ''12'')] [PStr ''int:age'']
       = Inr [(''age'', ''is not of type int'')]
   \<and> verify_json (type_name \<circ> type_of) [(''age'', PInt 12)] [PStr ''int:age''] = Inr []
   \<and> verify_json (type_name \<circ> type_of) [(''age'', PBool True)] [PStr ''int:age'']
       = Inr [(''age'', ''is not of type int'')]"
proof -
  have l: "lower ''int'' = ''int''"
    by (simp add: lower_def lower_char_def)
  have h: "map_of types (lower ''int'') = Some (TypeObj TyInt)"
    by (simp add: l types_def)
  show ?thesis
    using h l
      type_check_exact [of "''int''" "''age''" TyInt "[(''age'', PStr ''12'')]" "PStr ''12''"
        "type_name \<circ> type_of" "[]"]
      type_check_exact [of "''int''" "''age''" TyInt "[(''age'', PInt 12)]" "PInt 12"
        "type_name \<circ> type_of" "[]"]
      type_check_exact [of "''int''" "''age''" TyInt "[(''age'', PBool True)]" "PBool True"
        "type_name \<circ> type_of" "[]"]
    by (simp add: verify_json_def)
qed

text \<open>
  Claim C5, as stated, fails: the specifier \<open>weird:field\<close> on a body without the key
  \<open>field\<close> raises nothing; validation returns the reason \<open>missing\<close>.
\<close>

theorem unknown_tag_not_always_raised:
  "verify_json (type_name \<circ> type_of) [] [PStr ''weird:field''] = Inr [(''field'', ''missing'')]"
  by (simp add: verify_json_def verify_key_def py_str_def parse_required_def
      check_required_def lower_def lower_char_def)

text \<open>
  Claim C5, amended. When validation reaches a specifier \<open>tag:key\<close> whose lowered tag
  is not in the type table and whose key is present in the body, it raises the
  \<open>AssertionError\<close> that names the lowered tag and lists the valid tags, whatever
  specifiers follow.
\<close>

theorem unknown_tag_raises_when_key_present:
  assumes "CHR '':'' \<notin> set t" and "CHR '':'' \<notin> set key"
    and "map_of types (lower t) = None"
    and "map_of obj key = Some v"
    and "verify_loop str_other obj [] pre = Inr errors"
  shows "verify_json str_other obj (pre @ PStr (t @ '':'' @ key) # later)
           = Inl (AssertionError (lower t @
               '' is not a valid type. The valid types are: any str int float bool list dict.''))"
proof -
  from assms(3) have "lower t \<noteq> ''any''"
    by (auto simp: types_def)
  with assms(1-4) have "verify_key str_other obj errors (PStr (t @ '':'' @ key))
      = Inl (AssertionError (lower t @
               '' is not a valid type. The valid types are: any str int float bool list dict.''))"
    by (simp add: verify_key_def py_str_def parse_required_tagged check_required_def types_keys)
  with assms(5) show ?thesis
    by (simp add: verify_json_def verify_loop_append)
qed

theorem unknown_tag_raises_when_key_present_witness:
  "CHR '':'' \<notin> set ''weird'' \<and> CHR '':'' \<notin> set ''field''
   \<and> map_of types (lower ''weird'') = None
   \<and> map_of [(''field'', PInt 1)] ''field'' = Some (PInt 1)
   \<and> verify_loop (type_name \<circ> type_of) [(''field'', PInt 1)] [] [] = Inr []
   \<and> verify_json (type_name \<circ> type_of) [(''field'', PInt 1)] [PStr ''weird:field'']
       = Inl (AssertionError
           ''weird is not a valid type. The valid types are: any str int float bool list dict.'')"
proof -
  have l: "lower ''weird'' = ''weird''"
    by (simp add: lower_def lower_char_def)
  have h: "map_of types (lower ''weird'') = None"
    by (simp add: l types_def)
  show ?thesis
    using h l
      unknown_tag_raises_when_key_present [of "''weird''" "''field''" "[(''field'', PInt 1)]"
        "PInt 1" "type_name \<circ> type_of" "[]" "[]" "[]"]
    by simp
qed

text \<open>
  A bare key is checked as the specifier \<open>any:key\<close> is: presence only.
\<close>

lemma bare_key_as_any:
  assumes "CHR '':'' \<notin> set key"
  shows "verify_key str_other obj errors (PStr key)
           = verify_key str_other obj errors (PStr (''any:'' @ key))"
proof -
  have l: "lower ''any'' = ''any''"
    by (simp add: lower_def lower_char_def)
  have "parse_required (''any'' @ CHR '':'' # key) = Inr (Some (lower ''any''), key)"
    using assms by (intro parse_required_tagged) auto
  then show ?thesis using assms
    by (simp add: verify_key_def py_str_def parse_required_bare check_required_def l
        split: option.splits)
qed

text \<open>
  Claim C4. The specifier \<open>str:a:b\<close> is not parsed as the tag \<open>str\<close> with the key
  \<open>a:b\<close>: \<^verbatim>\<open>key.split(":")\<close> splits at every colon, and unpacking its three
  parts into two names raises \<open>ValueError\<close>, even though the body has the key \<open>a:b\<close>.
\<close>

theorem extra_colon_raises_value_error:
  "verify_json (type_name \<circ> type_of) [(''a:b'', PStr ''x'')] [PStr ''str:a:b'']
     = Inl (ValueError ''too many values to unpack (expected 2)'')"
  by (simp add: verify_json_def verify_key_def py_str_def parse_required_def)

text \<open>
  Claim C8. A validator built with the specifiers as separate arguments and a
  validator built with the same specifiers in one list, or in one tuple, give the
  same result on every body: the first argument is unwrapped when it is a list or a
  tuple.
\<close>

theorem both_call_styles:
  "verify_json_priv str_other [PList (map PStr specs)] obj
     = verify_json_priv str_other (map PStr specs) obj
   \<and> verify_json_priv str_other [PTuple (map PStr specs)] obj
     = verify_json_priv str_other (map PStr specs) obj"
  by (cases specs) (simp_all add: verify_json_priv_def verify_json_def)

section \<open>Properties of the library functions\<close>

lemma str_nat_small: "n < 10 \<Longrightarrow> str_nat n = [digit_char n]"
  by (simp add: str_nat.simps)

lemma str_nat_large: "10 \<le> n \<Longrightarrow> str_nat n = str_nat (n div 10) @ [digit_char (n mod 10)]"
  by (subst str_nat.simps) simp

lemmas str_nat_eval = str_nat_small str_nat_large digit_char_def

lemma str_nat_nonempty: "str_nat n \<noteq> []"
  by (subst str_nat.simps) simp

lemma digit_char_digit: "d < 10 \<Longrightarrow> digit_char d \<in> set ''0123456789''"
  unfolding digit_char_def by (rule nth_mem) simp

lemma digit_char_inj: "a < 10 \<Longrightarrow> b < 10 \<Longrightarrow> digit_char a = digit_char b \<Longrightarrow> a = b"
proof -
  assume "a < 10" "b < 10" "digit_char a = digit_char b"
  moreover have "distinct ''0123456789''" by simp
  ultimately show "a = b"
    unfolding digit_char_def by (simp add: nth_eq_iff_index_eq)
qed

text \<open>The decimal text of a number determines the number.\<close>

lemma str_nat_inj: "str_nat n = str_nat m \<Longrightarrow> n = m"
proof (induction n arbitrary: m rule: str_nat.induct)
  case (1 n)
  show ?case
  proof (cases "n < 10")
    case True
    have "m < 10"
    proof (rule ccontr)
      assume "\<not> m < 10"
      then have "str_nat m = str_nat (m div 10) @ [digit_char (m mod 10)]"
        by (simp add: str_nat_large)
      with 1(2) True str_nat_nonempty [of "m div 10"] show False
        by (simp add: str_nat_small)
    qed
    with True 1(2) show ?thesis
      by (auto simp: str_nat_small dest: digit_char_inj)
  next
    case False
    have "\<not> m < 10"
    proof
      assume "m < 10"
      with 1(2) False str_nat_nonempty [of "n div 10"] show False
        by (simp add: str_nat_small str_nat_large)
    qed
    with False 1(2) have "str_nat (n div 10) = str_nat (m div 10)"
      and "digit_char (n mod 10) = digit_char (m mod 10)"
      by (simp_all add: str_nat_large)
    with 1(1) [of "m div 10"] False have "n div 10 = m div 10" and "n mod 10 = m mod 10"
      using digit_char_inj [of "n mod 10" "m mod 10"] by simp_all
    then show ?thesis
      by (metis div_mult_mod_eq)
  qed
qed

lemma str_nat_digits: "set (str_nat n) \<subseteq> set ''0123456789''"
proof (induction n rule: str_nat.induct)
  case (1 n)
  show ?case
  proof (cases "n < 10")
    case True
    then show ?thesis
      using digit_char_digit [of n] by (simp add: str_nat_small)
  next
    case False
    then show ?thesis
      using 1 digit_char_digit [of "n mod 10"] by (simp add: str_nat_large)
  qed
qed

lemma digits_plain: "set ''0123456789'' \<subseteq> plain_chars"
  by (simp add: plain_chars_def)

lemma plain_literals:
  "CHR ''-'' \<in> plain_chars" "CHR ''+'' \<in> plain_chars" "CHR '':'' \<in> plain_chars"
  "CHR ''.'' \<in> plain_chars" "CHR ''T'' \<in> plain_chars" "CHR ''0'' \<in> plain_chars"
  by (simp_all add: plain_chars_def)

lemma pad_plain: "set (pad w n) \<subseteq> plain_chars"
  using str_nat_digits [of n] digits_plain
  by (auto simp: pad_def plain_literals simp del: set_simps list.set)

lemma format_offset_plain: "set (format_offset off) \<subseteq> plain_chars"
  by (cases off)
    (auto simp: format_offset_def Let_def plain_literals dest: subsetD [OF pad_plain])

lemma isoformat_plain: "set (isoformat d) \<subseteq> plain_chars"
  by (auto simp: isoformat_def plain_literals
      dest: subsetD [OF pad_plain] subsetD [OF format_offset_plain])

lemma escape_plain: "c \<in> plain_chars \<Longrightarrow> escape_char c = [c]"
  by (auto simp: escape_char_def plain_chars_def)

lemma escape_all_plain: "set s \<subseteq> plain_chars \<Longrightarrow> concat (map escape_char s) = s"
  by (induction s) (simp_all add: escape_plain)

text \<open>An ISO-8601 text needs no escape: its JSON text is the text in double quotes.\<close>

lemma encode_isoformat:
  "encode_basestring_ascii (isoformat d) = [CHR 0x22] @ isoformat d @ [CHR 0x22]"
  by (simp add: encode_basestring_ascii_def escape_all_plain isoformat_plain)

lemma replicate_numeral: "replicate (numeral k) x = x # replicate (pred_numeral k) x"
  by (simp add: numeral_eq_Suc)

lemma isoformat_fixed_instant:
  "isoformat \<lparr>year = 2024, month = 1, day = 1, hour = 0, minute = 0, second = 0,
      microsecond = 0, utcoffset = None\<rparr> = ''2024-01-01T00:00:00''"
  by (simp add: isoformat_def pad_def format_offset_def str_nat_eval)

lemma isoformat_aware_instant:
  "isoformat \<lparr>year = 2024, month = 1, day = 1, hour = 0, minute = 0, second = 0,
      microsecond = 250, utcoffset = Some (- 19800)\<rparr> = ''2024-01-01T00:00:00.000250-05:30''"
  by (simp add: isoformat_def pad_def format_offset_def str_nat_eval replicate_numeral)

section \<open>Properties of the JSON encoder\<close>

lemma encode_iso_subst:
  "encode v = encode (iso_subst v)"
  "encode_list xs = encode_list (map iso_subst xs)"
  "encode_dict kvs = encode_dict (map (\<lambda>kv. (fst kv, iso_subst (snd kv))) kvs)"
  by (induction v and xs and kvs rule: encode_encode_list_encode_dict.induct)
    (auto simp: encoder_default_def split: sum.splits)

lemma encode_first_object:
  "case first_object v of
     Some t \<Rightarrow> encode v = Inl (TypeError (''Object of type '' @ t @ '' is not JSON serializable''))
   | None \<Rightarrow> \<exists>s. encode v = Inr s"
  "case first_object_list xs of
     Some t \<Rightarrow> encode_list xs = Inl (TypeError (''Object of type '' @ t @ '' is not JSON serializable''))
   | None \<Rightarrow> \<exists>ps. encode_list xs = Inr ps"
  "case first_object_dict kvs of
     Some t \<Rightarrow> encode_dict kvs = Inl (TypeError (''Object of type '' @ t @ '' is not JSON serializable''))
   | None \<Rightarrow> \<exists>ps. encode_dict kvs = Inr ps"
  by (induction v and xs and kvs rule: encode_encode_list_encode_dict.induct)
    (auto simp: encoder_default_def JSONEncoder_default_def split: option.splits)

text \<open>
  Claim C7. A datetime is encoded as its ISO-8601 text in double quotes; the
  encoding of any payload is the encoding of the payload in which every datetime
  is replaced by its ISO-8601 text; and the encoding succeeds unless the payload
  holds an object that is neither a value of standard JSON nor a datetime, in
  which case it raises the \<open>TypeError\<close> that names the class of the first such
  object. A datetime here is an instance of \<^verbatim>\<open>datetime.datetime\<close>, the class line
  12 tests for; an object of any other class, a \<^verbatim>\<open>datetime.date\<close> too, is a
  \<open>PObject\<close>.
\<close>

theorem datetime_encoding:
  "dumps (PDatetime d) = Inr ([CHR 0x22] @ isoformat d @ [CHR 0x22])
   \<and> dumps v = dumps (iso_subst v)
   \<and> (case first_object v of
         Some t \<Rightarrow>
           dumps v = Inl (TypeError (''Object of type '' @ t @ '' is not JSON serializable''))
       | None \<Rightarrow> (\<exists>s. dumps v = Inr s))"
proof -
  have "dumps (PDatetime d) = Inr ([CHR 0x22] @ isoformat d @ [CHR 0x22])"
    by (simp add: dumps_def encoder_default_def encode_isoformat)
  moreover have "dumps v = dumps (iso_subst v)"
    unfolding dumps_def by (rule encode_iso_subst(1))
  moreover have "case first_object v of
         Some t \<Rightarrow>
           dumps v = Inl (TypeError (''Object of type '' @ t @ '' is not JSON serializable''))
       | None \<Rightarrow> (\<exists>s. dumps v = Inr s)"
    unfolding dumps_def by (rule encode_first_object(1))
  ultimately show ?thesis
    by blast
qed

theorem datetime_encoding_witness:
  "dumps (PDict [(''when'', PDatetime \<lparr>year = 2024, month = 1, day = 1, hour = 0,
       minute = 0, second = 0, microsecond = 0, utcoffset = None\<rparr>)])
     = Inr (''{'' @ [CHR 0x22] @ ''when'' @ [CHR 0x22] @ '': ''
            @ [CHR 0x22] @ ''2024-01-01T00:00:00'' @ [CHR 0x22] @ ''}'')
   \<and> dumps (PList [PInt 1, PObject ''date''])
     = Inl (TypeError ''Object of type date is not JSON serializable'')"
proof -
  let ?v = "PDict [(''when'', PDatetime \<lparr>year = 2024, month = 1, day = 1, hour = 0,
       minute = 0, second = 0, microsecond = 0, utcoffset = None\<rparr>)]"
  let ?w = "PList [PInt 1, PObject ''date'']"
  have "iso_subst ?v = PDict [(''when'', PStr ''2024-01-01T00:00:00'')]"
    by (simp only: iso_subst.simps list.map fst_conv snd_conv isoformat_fixed_instant)
  moreover have "dumps ?v = dumps (iso_subst ?v)"
    using datetime_encoding [of undefined ?v] by blast
  ultimately have a: "dumps ?v = dumps (PDict [(''when'', PStr ''2024-01-01T00:00:00'')])"
    by simp
  have "first_object ?w = Some ''date''"
    by simp
  with datetime_encoding [of undefined ?w]
  have b: "dumps ?w = Inl (TypeError ''Object of type date is not JSON serializable'')"
    by simp
  show ?thesis
    unfolding a b
    by (simp add: dumps_def encode_basestring_ascii_def escape_char_def)
qed

section \<open>Properties of the response serializer\<close>

text \<open>
  Claim C6. The response serializer normalizes the endpoint's return value as the
  specification says (\<open>normalized\<close>), serializes the payload, and answers with that
  text, the normalized status and the content type \<open>application/json\<close>; an
  exception of the endpoint or of the serialization goes on to the caller.
\<close>

theorem json_response_normalizes:
  "json_response func args kwargs =
     (case func args kwargs of
        Inl e \<Rightarrow> Inl e
      | Inr v \<Rightarrow>
          (case dumps (fst (normalized v)) of
             Inl e \<Rightarrow> Inl e
           | Inr text \<Rightarrow>
               Inr \<lparr>response = text, status = snd (normalized v),
                    mimetype = ''application/json''\<rparr>))"
proof (cases "func args kwargs")
  case (Inl e)
  then show ?thesis by (simp add: json_response_def)
next
  case (Inr v)
  have seq: "\<And>xs. xs \<noteq> [] \<Longrightarrow> length xs \<noteq> Suc 0 \<Longrightarrow>
      normalized_sequence xs = (xs ! 0, xs ! 1)"
    subgoal for xs by (cases xs rule: normalized_sequence.cases) auto
    done
  have one: "\<And>xs. length xs = Suc 0 \<Longrightarrow> normalized_sequence xs = (xs ! 0, PInt 200)"
    subgoal for xs by (cases xs rule: normalized_sequence.cases) auto
    done
  show ?thesis
    using Inr
    by (cases v)
      (auto simp: json_response_def normalized_def is_list_or_tuple_def items_of_def Let_def
        seq one split: sum.splits)
qed

theorem json_response_normalizes_witness:
  "json_response (\<lambda>args kwargs. Inr (PDict [(''a'', PInt 1)])) [] []
     = Inr \<lparr>response = ''{'' @ [CHR 0x22] @ ''a'' @ [CHR 0x22] @ '': 1}'',
            status = PInt 200, mimetype = ''application/json''\<rparr>
   \<and> json_response (\<lambda>args kwargs. Inr (PTuple [PDict [(''a'', PInt 1)], PInt 201])) [] []
     = Inr \<lparr>response = ''{'' @ [CHR 0x22] @ ''a'' @ [CHR 0x22] @ '': 1}'',
            status = PInt 201, mimetype = ''application/json''\<rparr>
   \<and> json_response (\<lambda>args kwargs. Inr (PTuple [])) [] []
     = Inr \<lparr>response = [CHR 0x22, CHR 0x22], status = PInt 200,
            mimetype = ''application/json''\<rparr>
   \<and> json_response (\<lambda>args kwargs. Inr (PList [PInt 7])) [] []
     = Inr \<lparr>response = ''7'', status = PInt 200, mimetype = ''application/json''\<rparr>
   \<and> json_response (\<lambda>args kwargs. Inr (PTuple [PNone, PInt 404, PStr ''extra''])) [] []
     = Inr \<lparr>response = ''null'', status = PInt 404, mimetype = ''application/json''\<rparr>"
  using json_response_normalizes [of "\<lambda>args kwargs. Inr (PDict [(''a'', PInt 1)])" "[]" "[]"]
    json_response_normalizes
      [of "\<lambda>args kwargs. Inr (PTuple [PDict [(''a'', PInt 1)], PInt 201])" "[]" "[]"]
    json_response_normalizes [of "\<lambda>args kwargs. Inr (PTuple [])" "[]" "[]"]
    json_response_normalizes [of "\<lambda>args kwargs. Inr (PList [PInt 7])" "[]" "[]"]
    json_response_normalizes
      [of "\<lambda>args kwargs. Inr (PTuple [PNone, PInt 404, PStr ''extra''])" "[]" "[]"]
  by (simp add: normalized_def dumps_def encode_basestring_ascii_def escape_char_def
      str_int_def str_nat_eval)

section \<open>Properties of the exception guard\<close>

text \<open>
  Claim C1. When the wrapped callable raises, whatever the exception, the guard
  returns the pair of the formatted traceback and 500, and the traceback text
  contains the class name and the message of the exception; when the callable
  returns, the guard returns its result unchanged.
\<close>

theorem catch_guard:
  "(func args kwargs = Inl e \<longrightarrow>
      catch stack func args kwargs = Inr (PTuple [PStr (format_exc stack e), PInt 500])
      \<and> (\<exists>before after. format_exc stack e = before @ exc_class e @ after)
      \<and> (\<exists>before after. format_exc stack e = before @ exc_msg e @ after))
   \<and> (func args kwargs = Inr r \<longrightarrow> catch stack func args kwargs = Inr r)"
proof -
  have "\<exists>before after. format_exc stack e = before @ exc_class e @ after"
    unfolding format_exc_def by (metis append.assoc)
  moreover have "\<exists>before after. format_exc stack e = before @ exc_msg e @ after"
  proof (cases "exc_msg e = []")
    case True
    then have "format_exc stack e = [] @ exc_msg e @ format_exc stack e"
      by simp
    then show ?thesis by blast
  next
    case False
    then have "format_exc stack e =
        (''Traceback (most recent call last):'' @ [CHR 0x0A] @ stack e @ exc_class e @ '': '')
          @ exc_msg e @ [CHR 0x0A]"
      by (simp add: format_exc_def)
    then show ?thesis by blast
  qed
  ultimately show ?thesis
    by (simp add: catch_def)
qed

theorem catch_guard_witness:
  "(\<lambda>args kwargs. Inl (Exc ''ZeroDivisionError'' ''division by zero'')) [] []
      = (Inl (Exc ''ZeroDivisionError'' ''division by zero'') :: exc + pyval)
   \<and> catch (\<lambda>e. []) (\<lambda>args kwargs. Inl (Exc ''ZeroDivisionError'' ''division by zero'')) [] []
      = Inr (PTuple [PStr (''Traceback (most recent call last):'' @ [CHR 0x0A]
               @ ''ZeroDivisionError: division by zero'' @ [CHR 0x0A]), PInt 500])
   \<and> (\<lambda>args kwargs. Inr (PStr ''ok'')) [] [] = (Inr (PStr ''ok'') :: exc + pyval)
   \<and> catch (\<lambda>e. []) (\<lambda>args kwargs. Inr (PStr ''ok'')) [] [] = Inr (PStr ''ok'')"
  using catch_guard [of "\<lambda>args kwargs. Inl (Exc ''ZeroDivisionError'' ''division by zero'')"
      "[]" "[]" "Exc ''ZeroDivisionError'' ''division by zero''" "\<lambda>e. []"]
    catch_guard [of "\<lambda>args kwargs. Inr (PStr ''ok'')" "[]" "[]" _ "\<lambda>e. []" "PStr ''ok''"]
  by (simp add: format_exc_def)

section \<open>Properties of the JSON-body extractor\<close>

text \<open>
  Claim C2. When \<^verbatim>\<open>request.json\<close> is the value \<open>None\<close> (no JSON body), the
  extractor does not reach its \<open>AssertionError\<close>: line 40 calls \<open>None\<close>, which
  raises \<open>TypeError\<close>. The \<open>AssertionError\<close> is raised when \<^verbatim>\<open>request.json\<close> is a
  method that returns \<open>None\<close>. A body that is a dict, from the property or from the
  method, is handed to the endpoint as the first positional argument, before the
  others.
\<close>

theorem json_request_absent_body:
  "json_request \<lparr>json = JsonValue PNone\<rparr> func args kwargs
     = Inl (TypeError ([CHR 0x27] @ ''NoneType'' @ [CHR 0x27] @ '' object is not callable''))
   \<and> json_request \<lparr>json = JsonMethod (Inr PNone)\<rparr> func args kwargs
     = Inl (AssertionError ''Request body is not application/json'')
   \<and> json_request \<lparr>json = JsonValue (PDict kvs)\<rparr> func args kwargs
     = func (PDict kvs # args) kwargs
   \<and> json_request \<lparr>json = JsonMethod (Inr (PDict kvs))\<rparr> func args kwargs
     = func (PDict kvs # args) kwargs"
  by (simp add: json_request_def request_body_def)

section \<open>Properties of the route factory\<close>

lemma wrap_route_methods:
  "\<exists>ms. methods (reg_options (wrap_route rt method opts func callback_id)) = Some ms
        \<and> distinct ms \<and> set ms = insert method (caller_methods opts)"
  by (auto simp: wrap_route_def Let_def caller_methods_def split: option.splits)

text \<open>
  Claim C9. The verb of the method is always registered (see
  \<open>wrap_route_methods\<close> and the theorem after this one), but the generated
  names are not always distinct: line 214 joins the name and the decimal identity
  with nothing between them, so two decorations whose callbacks have different
  identities register under one identifier when one handler is named \<open>route\<close>
  and the other \<open>route1\<close>.
\<close>

theorem callback_names_collide:
  "(14338830928::nat) \<noteq> 4338830928
   \<and> func_name (view_func (get ''/a'' \<lparr>methods = None, other_options = []\<rparr>
         \<lparr>func_name = ''route'', func_body = ()\<rparr> 14338830928))
     = func_name (view_func (get ''/b'' \<lparr>methods = None, other_options = []\<rparr>
         \<lparr>func_name = ''route1'', func_body = ()\<rparr> 4338830928))"
  by (simp add: get_def wrap_route_def Let_def callback_name_def str_nat_eval)

text \<open>
  What the route factory does guarantee. Each of the five verb methods registers the
  verbs the caller listed together with the verb of the method, so that verb is
  always among them; and two decorations of handlers that share their original
  name, with callbacks of different identities, register under different generated
  names.
\<close>

theorem route_factory_registration:
  "(\<exists>ms. methods (reg_options (options rt opts func i)) = Some ms
        \<and> set ms = insert ''OPTIONS'' (caller_methods opts))
   \<and> (\<exists>ms. methods (reg_options (get rt opts func i)) = Some ms
        \<and> set ms = insert ''GET'' (caller_methods opts))
   \<and> (\<exists>ms. methods (reg_options (post rt opts func i)) = Some ms
        \<and> set ms = insert ''POST'' (caller_methods opts))
   \<and> (\<exists>ms. methods (reg_options (put rt opts func i)) = Some ms
        \<and> set ms = insert ''PUT'' (caller_methods opts))
   \<and> (\<exists>ms. methods (reg_options (delete rt opts func i)) = Some ms
        \<and> set ms = insert ''DELETE'' (caller_methods opts))
   \<and> (func_name func = func_name func' \<and> i \<noteq> j \<longrightarrow>
        func_name (view_func (wrap_route rt method opts func i))
          \<noteq> func_name (view_func (wrap_route rt' method' opts' func' j)))"
proof -
  have verbs: "\<And>m. \<exists>ms. methods (reg_options (wrap_route rt m opts func i)) = Some ms
        \<and> set ms = insert m (caller_methods opts)"
    using wrap_route_methods by blast
  have names: "func_name func = func_name func' \<and> i \<noteq> j \<longrightarrow>
        func_name (view_func (wrap_route rt method opts func i))
          \<noteq> func_name (view_func (wrap_route rt' method' opts' func' j))"
    by (auto simp: wrap_route_def Let_def callback_name_def dest: str_nat_inj)
  show ?thesis
    unfolding options_def get_def post_def put_def delete_def
    using verbs names by blast
qed

theorem route_factory_registration_witness:
  "(\<exists>ms. methods (reg_options
        (get ''/users'' \<lparr>methods = Some [''POST''], other_options = []\<rparr>
           \<lparr>func_name = ''index'', func_body = ()\<rparr> 7)) = Some ms
        \<and> set ms = {''GET'', ''POST''})
   \<and> func_name \<lparr>func_name = ''index'', func_body = ()\<rparr>
       = func_name \<lparr>func_name = ''index'', func_body = ()\<rparr>
   \<and> (7::nat) \<noteq> 8
   \<and> func_name (view_func (wrap_route ''/users'' ''GET''
         \<lparr>methods = Some [''POST''], other_options = []\<rparr>
         \<lparr>func_name = ''index'', func_body = ()\<rparr> 7))
     \<noteq> func_name (view_func (wrap_route ''/items'' ''GET''
         \<lparr>methods = None, other_options = []\<rparr>
         \<lparr>func_name = ''index'', func_body = ()\<rparr> 8))"
  using route_factory_registration [of "''/users''"
      "\<lparr>methods = Some [''POST''], other_options = []\<rparr>"
      "\<lparr>func_name = ''index'', func_body = ()\<rparr>" 7
      "\<lparr>func_name = ''index'', func_body = ()\<rparr>" 8
      "''GET''" "''/items''" "''GET''" "\<lparr>methods = None, other_options = []\<rparr>"]
  by (simp add: caller_methods_def)

end
